theory Spec2Isabelle
  imports Main
begin

section \<open>Constants of the native server\<close>

text \<open>
  Source: \<^verbatim>\<open>app/native-server/src/constant/index.ts\<close>.
  The string enum and the three \<^verbatim>\<open>as const\<close> objects are closed tables: a datatype of
  the keys, in the order of the source, and a total function giving each key's value.
\<close>

subsection \<open>\<^verbatim>\<open>NATIVE_MESSAGE_TYPE\<close>\<close>

datatype NATIVE_MESSAGE_TYPE = START | STARTED | STOP | STOPPED | PING | PONG | ERROR

text \<open>The string each enum member stands for.\<close>

fun NATIVE_MESSAGE_TYPE_value :: "NATIVE_MESSAGE_TYPE \<Rightarrow> string" where
  "NATIVE_MESSAGE_TYPE_value START = ''start''"
| "NATIVE_MESSAGE_TYPE_value STARTED = ''started''"
| "NATIVE_MESSAGE_TYPE_value STOP = ''stop''"
| "NATIVE_MESSAGE_TYPE_value STOPPED = ''stopped''"
| "NATIVE_MESSAGE_TYPE_value PING = ''ping''"
| "NATIVE_MESSAGE_TYPE_value PONG = ''pong''"
| "NATIVE_MESSAGE_TYPE_value ERROR = ''error''"

subsection \<open>\<^verbatim>\<open>NATIVE_SERVER_PORT\<close>\<close>

definition NATIVE_SERVER_PORT :: nat where
  "NATIVE_SERVER_PORT = 56889"

subsection \<open>\<^verbatim>\<open>TIMEOUTS\<close> (milliseconds)\<close>

datatype TIMEOUTS_key = DEFAULT_REQUEST_TIMEOUT | EXTENSION_REQUEST_TIMEOUT | PROCESS_DATA_TIMEOUT

fun TIMEOUTS :: "TIMEOUTS_key \<Rightarrow> nat" where
  "TIMEOUTS DEFAULT_REQUEST_TIMEOUT = 15000"
| "TIMEOUTS EXTENSION_REQUEST_TIMEOUT = 20000"
| "TIMEOUTS PROCESS_DATA_TIMEOUT = 20000"

subsection \<open>\<^verbatim>\<open>SERVER_CONFIG\<close>\<close>

record server_config =
  HOST :: string
  CORS_ORIGIN :: bool
  LOGGER_ENABLED :: bool

text \<open>
  \<^verbatim>\<open>HOST: process.env.MCP_CHROME_HOST || '0.0.0.0'\<close>. The environment variable is the
  parameter: \<open>None\<close> when it is unset (\<^verbatim>\<open>undefined\<close>), \<open>Some h\<close> when it is set to
  \<open>h\<close>. JavaScript's \<^verbatim>\<open>||\<close> takes the right operand for every falsy left operand, and
  the empty string is falsy.
\<close>

definition SERVER_CONFIG :: "string option \<Rightarrow> server_config" where
  "SERVER_CONFIG env_MCP_CHROME_HOST =
     \<lparr> HOST = (case env_MCP_CHROME_HOST of
                 None \<Rightarrow> ''0.0.0.0''
               | Some h \<Rightarrow> if h = [] then ''0.0.0.0'' else h),
       CORS_ORIGIN = True,
       LOGGER_ENABLED = False \<rparr>"

subsection \<open>\<^verbatim>\<open>HTTP_STATUS\<close>\<close>

datatype HTTP_STATUS_key = OK | NO_CONTENT | BAD_REQUEST | INTERNAL_SERVER_ERROR | GATEWAY_TIMEOUT

fun HTTP_STATUS :: "HTTP_STATUS_key \<Rightarrow> nat" where
  "HTTP_STATUS OK = 200"
| "HTTP_STATUS NO_CONTENT = 204"
| "HTTP_STATUS BAD_REQUEST = 400"
| "HTTP_STATUS INTERNAL_SERVER_ERROR = 500"
| "HTTP_STATUS GATEWAY_TIMEOUT = 504"

subsection \<open>\<^verbatim>\<open>ERROR_MESSAGES\<close>\<close>

text \<open>
  The key \<^verbatim>\<open>INTERNAL_SERVER_ERROR\<close> of \<^verbatim>\<open>ERROR_MESSAGES\<close> is written
  \<open>MSG_INTERNAL_SERVER_ERROR\<close> here, since \<^verbatim>\<open>HTTP_STATUS\<close> has a key of the same name.
\<close>

datatype ERROR_MESSAGES_key =
    NATIVE_HOST_NOT_AVAILABLE
  | SERVER_NOT_RUNNING
  | REQUEST_TIMEOUT
  | INVALID_MCP_REQUEST
  | INVALID_SESSION_ID
  | MSG_INTERNAL_SERVER_ERROR
  | MCP_SESSION_DELETION_ERROR
  | MCP_REQUEST_PROCESSING_ERROR
  | INVALID_SSE_SESSION

fun ERROR_MESSAGES :: "ERROR_MESSAGES_key \<Rightarrow> string" where
  "ERROR_MESSAGES NATIVE_HOST_NOT_AVAILABLE = ''Native host connection not established.''"
| "ERROR_MESSAGES SERVER_NOT_RUNNING = ''Server is not actively running.''"
| "ERROR_MESSAGES REQUEST_TIMEOUT = ''Request to extension timed out.''"
| "ERROR_MESSAGES INVALID_MCP_REQUEST = ''Invalid MCP request or session.''"
| "ERROR_MESSAGES INVALID_SESSION_ID = ''Invalid or missing MCP session ID.''"
| "ERROR_MESSAGES MSG_INTERNAL_SERVER_ERROR = ''Internal Server Error''"
| "ERROR_MESSAGES MCP_SESSION_DELETION_ERROR =
     ''Internal server error during MCP session deletion.''"
| "ERROR_MESSAGES MCP_REQUEST_PROCESSING_ERROR =
     ''Internal server error during MCP request processing.''"
| "ERROR_MESSAGES INVALID_SSE_SESSION = ''Invalid or missing MCP session ID for SSE.''"

section \<open>The host-configuration helper\<close>

text \<open>
  Source: \<^verbatim>\<open>configure-host.sh\<close>. Of the script, the part that names the server's port
  is the line printed after a configuration was saved, in the modes \<^verbatim>\<open>tailscale\<close>
  (line 393) and \<^verbatim>\<open>set\<close> (line 406):
  \<^verbatim>\<open>echo -e "${BLUE}  Your MCP clients should connect to: http://$HOST_IP:12306/mcp${NC}"\<close>.
\<close>

datatype MODE = MODE_info | MODE_reset | MODE_tailscale | MODE_set

text \<open>
  The colours \<^verbatim>\<open>BLUE='\033[0;34m'\<close> and \<^verbatim>\<open>NC='\033[0m'\<close>. They are single-quoted: each
  starts with a backslash and the three digits 033, which only \<^verbatim>\<open>echo -e\<close> turns into
  the escape character.
\<close>

definition BLUE :: string where
  "BLUE = CHR 0x5C # ''033[0;34m''"

definition NC :: string where
  "NC = CHR 0x5C # ''033[0m''"

text \<open>
  The double-quoted word of lines 393 and 406 after parameter expansion, which inserts
  the host as it is: the argument of \<^verbatim>\<open>echo -e\<close>.
\<close>

definition connect_line :: "string \<Rightarrow> string" where
  "connect_line host_ip =
     BLUE @ ''  Your MCP clients should connect to: http://'' @ host_ip @ '':12306/mcp'' @ NC"

text \<open>
  The argument of the last \<^verbatim>\<open>echo -e\<close> of the main \<^verbatim>\<open>case "$MODE"\<close>, when that line
  is reached. \<open>host_ip\<close> is the detected Tailscale address in mode \<^verbatim>\<open>tailscale\<close> and
  \<^verbatim>\<open>$HOST_IP\<close> in mode \<^verbatim>\<open>set\<close>; both modes exit with status 1 on an empty address,
  before anything is saved. \<open>set_config_ok\<close> says that \<^verbatim>\<open>set_config\<close> returned 0
  (under \<^verbatim>\<open>set -e\<close> the script stops otherwise). The modes \<^verbatim>\<open>info\<close> and \<^verbatim>\<open>reset\<close>
  print no such line.
\<close>

fun configure_host_main :: "MODE \<Rightarrow> string \<Rightarrow> bool \<Rightarrow> string option" where
  "configure_host_main MODE_info host_ip set_config_ok = None"
| "configure_host_main MODE_reset host_ip set_config_ok = None"
| "configure_host_main MODE_tailscale host_ip set_config_ok =
     (if host_ip = [] then None
      else if set_config_ok then Some (connect_line host_ip) else None)"
| "configure_host_main MODE_set host_ip set_config_ok =
     (if host_ip = [] then None
      else if set_config_ok then Some (connect_line host_ip) else None)"

subsection \<open>The shell's \<^verbatim>\<open>echo -e\<close>\<close>

text \<open>
  \<^verbatim>\<open>echo -e\<close> is the shell's builtin, with one argument here. It copies the bytes of
  its argument and rewrites the escape sequences: \<^verbatim>\<open>\a \b \e \E \f \n \r \t \v \\\<close> stand
  for one byte each; \<^verbatim>\<open>\0\<close> with up to three octal digits and \<^verbatim>\<open>\x\<close> with one or two
  hexadecimal digits stand for the byte of that value (the octal value taken modulo 256);
  \<^verbatim>\<open>\c\<close> ends the output at once, without the final line feed; a backslash before any
  other character, a \<^verbatim>\<open>\x\<close> without a digit and a backslash at the very end are
  copied as they are. The output ends with a line feed unless \<^verbatim>\<open>\c\<close> was met.
  What \<^verbatim>\<open>\u\<close> and \<^verbatim>\<open>\U\<close> (a Unicode code point) print depends on the shell's version
  and on the locale: on them the result is \<open>None\<close>, which says nothing about the output.
\<close>

definition is_octal :: "char \<Rightarrow> bool" where
  "is_octal c = (c \<in> set ''01234567'')"

definition is_xdigit :: "char \<Rightarrow> bool" where
  "is_xdigit c = (c \<in> set ''0123456789abcdefABCDEF'')"

definition digit_value :: "char \<Rightarrow> nat" where
  "digit_value c =
     (if c \<in> set ''0123456789'' then of_char c - 48
      else if c \<in> set ''abcdef'' then of_char c - 87
      else of_char c - 55)"

definition digits_value :: "nat \<Rightarrow> string \<Rightarrow> nat" where
  "digits_value base ds = foldl (\<lambda>v d. v * base + digit_value d) 0 ds"

text \<open>The bytes \<open>bs\<close>, then the rest of the output.\<close>

definition emit :: "string \<Rightarrow> (string \<times> bool) option \<Rightarrow> (string \<times> bool) option" where
  "emit bs r = map_option (\<lambda>(out, sawc). (bs @ out, sawc)) r"

text \<open>The bytes written for the argument, and whether \<^verbatim>\<open>\c\<close> was met.\<close>

function echo_escapes :: "string \<Rightarrow> (string \<times> bool) option" where
  "echo_escapes [] = Some ([], False)"
| "echo_escapes [c] = Some ([c], False)"
| "echo_escapes (c # e # s) =
     (if c \<noteq> CHR 0x5C then emit [c] (echo_escapes (e # s))
      else if e = CHR ''a'' then emit [CHR 0x07] (echo_escapes s)
      else if e = CHR ''b'' then emit [CHR 0x08] (echo_escapes s)
      else if e = CHR ''e'' \<or> e = CHR ''E'' then emit [CHR 0x1B] (echo_escapes s)
      else if e = CHR ''f'' then emit [CHR 0x0C] (echo_escapes s)
      else if e = CHR ''n'' then emit [CHR 0x0A] (echo_escapes s)
      else if e = CHR ''r'' then emit [CHR 0x0D] (echo_escapes s)
      else if e = CHR ''t'' then emit [CHR 0x09] (echo_escapes s)
      else if e = CHR ''v'' then emit [CHR 0x0B] (echo_escapes s)
      else if e = CHR 0x5C then emit [CHR 0x5C] (echo_escapes s)
      else if e = CHR ''0'' then
        emit [char_of (digits_value 8 (takeWhile is_octal (take 3 s)) mod 256)]
          (echo_escapes (drop (length (takeWhile is_octal (take 3 s))) s))
      else if e = CHR ''x'' then
        (if takeWhile is_xdigit (take 2 s) = []
         then emit [CHR 0x5C, CHR ''x''] (echo_escapes s)
         else emit [char_of (digits_value 16 (takeWhile is_xdigit (take 2 s)))]
                (echo_escapes (drop (length (takeWhile is_xdigit (take 2 s))) s)))
      else if e = CHR ''c'' then Some ([], True)
      else if e = CHR ''u'' \<or> e = CHR ''U'' then None
      else emit [CHR 0x5C, e] (echo_escapes s))"
  by pat_completeness auto
termination
  by (relation "measure length") auto

declare echo_escapes.simps(3) [simp del]

definition echo_e :: "string \<Rightarrow> string option" where
  "echo_e w =
     map_option (\<lambda>(out, sawc). if sawc then out else out @ [CHR 0x0A]) (echo_escapes w)"

text \<open>
  The connection line as the terminal receives it: the argument of
  \<open>configure_host_main\<close> through \<^verbatim>\<open>echo -e\<close>. The result is \<open>None\<close> when the
  line is not reached, and when the host holds a \<^verbatim>\<open>\u\<close> or \<^verbatim>\<open>\U\<close> escape.
\<close>

definition printed_connect_line :: "MODE \<Rightarrow> string \<Rightarrow> bool \<Rightarrow> string option" where
  "printed_connect_line m host_ip set_config_ok =
     (case configure_host_main m host_ip set_config_ok of
        None \<Rightarrow> None
      | Some w \<Rightarrow> echo_e w)"

text \<open>
  The text of a URL of the server on a given port, to compare the printed line with:
  the port is written in decimal.
\<close>

fun decimal :: "nat \<Rightarrow> string" where
  "decimal n =
     (if n < 10 then [''0123456789'' ! n]
      else decimal (n div 10) @ [''0123456789'' ! (n mod 10)])"

declare decimal.simps [simp del]

definition mcp_url :: "string \<Rightarrow> nat \<Rightarrow> string" where
  "mcp_url host port = ''http://'' @ host @ '':'' @ decimal port @ ''/mcp''"

section \<open>The native-host wrapper script\<close>

text \<open>
  Source: the \<^verbatim>\<open>run_host\<close> wrapper, lines 12 to 29: how \<^verbatim>\<open>MCP_CHROME_HOST\<close> is resolved
  before the Node.js process is started. Strings are byte strings.
\<close>

text \<open>\<^verbatim>\<open>tr -d '\n\r '\<close>: delete every line feed, carriage return and space.\<close>

definition tr_d :: "string \<Rightarrow> string" where
  "tr_d s = filter (\<lambda>c. c \<noteq> CHR 0x0A \<and> c \<noteq> CHR 0x0D \<and> c \<noteq> CHR '' '') s"

text \<open>\<^verbatim>\<open>head -c 50\<close>: the first 50 bytes, or all of a shorter input.\<close>

definition head_c :: "nat \<Rightarrow> string \<Rightarrow> string" where
  "head_c n s = take n s"

text \<open>
  \<^verbatim>\<open>$( ... )\<close>: the shell keeps the command's output without its NUL bytes (a shell
  variable cannot hold one) and without its trailing line feeds.
\<close>

definition command_substitution :: "string \<Rightarrow> string" where
  "command_substitution out =
     rev (dropWhile (\<lambda>c. c = CHR 0x0A) (rev (filter (\<lambda>c. c \<noteq> CHR 0x00) out)))"

text \<open>
  \<^verbatim>\<open>$(cat "$FILE" 2>/dev/null | tr -d '\n\r ' | head -c 50)\<close>, on the content of the file
  (nothing, when \<^verbatim>\<open>cat\<close> cannot read it).
\<close>

definition load_host :: "string \<Rightarrow> string" where
  "load_host content = command_substitution (head_c 50 (tr_d content))"

text \<open>
  The value of \<^verbatim>\<open>MCP_CHROME_HOST\<close> the script exports. \<open>env\<close> is the variable on entry
  (\<open>None\<close>: unset); \<open>config_file\<close> and \<open>user_config_file\<close> are the contents of
  \<^verbatim>\<open>${SCRIPT_DIR}/.mcp-chrome-host\<close> and \<^verbatim>\<open>${HOME}/.mcp-chrome/host\<close> (\<open>None\<close>: the test
  \<^verbatim>\<open>[ -f ... ]\<close> fails). Line 14 turns unset into empty; lines 18 to 26 read a file only when
  the variable is empty, the second file only when the first does not exist; line 29
  replaces an empty value by \<^verbatim>\<open>0.0.0.0\<close>.
\<close>

definition run_host_MCP_CHROME_HOST ::
  "string option \<Rightarrow> string option \<Rightarrow> string option \<Rightarrow> string" where
  "run_host_MCP_CHROME_HOST env config_file user_config_file =
     (let v0 = (case env of None \<Rightarrow> [] | Some v \<Rightarrow> v);
          v1 = (if v0 = [] then
                  (case config_file of
                     Some c \<Rightarrow> load_host c
                   | None \<Rightarrow>
                       (case user_config_file of
                          Some u \<Rightarrow> load_host u
                        | None \<Rightarrow> v0))
                else v0)
      in if v1 = [] then ''0.0.0.0'' else v1)"

text \<open>
  The priority as the script's comment on line 13 words it, for comparison with the code:
  \<^verbatim>\<open>1) Config file in script directory, 2) User home config, 3) Environment variable,
  4) Default\<close>. The first of the four sources that is there gives the value.
\<close>

definition commented_priority_MCP_CHROME_HOST ::
  "string option \<Rightarrow> string option \<Rightarrow> string option \<Rightarrow> string" where
  "commented_priority_MCP_CHROME_HOST env config_file user_config_file =
     (case config_file of
        Some c \<Rightarrow> load_host c
      | None \<Rightarrow>
          (case user_config_file of
             Some u \<Rightarrow> load_host u
           | None \<Rightarrow>
               (case env of
                  Some v \<Rightarrow> if v = [] then ''0.0.0.0'' else v
                | None \<Rightarrow> ''0.0.0.0'')))"

section \<open>The Request Correlator and the Connection\<close>

text \<open>
  The sources hold the constants of the server but not the server: the Request Correlator,
  the Connection Manager and the Gateway's request handling are described by the
  specification only (its sections 3, 4.3, 4.4 and 4.6). The definitions of this section
  follow its words. Time is a count of milliseconds; the event loop is single-threaded, so
  each event below is handled in one uninterrupted step.
\<close>

text \<open>
  Modelled from the spec: the Connection's state, missing from the sources.
  \<^verbatim>\<open>state: one of {disconnected, connecting, connected, closing}\<close>.
\<close>

datatype connection_state = disconnected | connecting | connected | closing

text \<open>
  Modelled from the spec: the PendingRequest record, missing from the sources.
  \<^verbatim>\<open>{ id: unique per connection lifetime, deadline: absolute time, resolve/reject
  continuation }\<close>; the continuation is the caller, named by the identifier in the
  notices below.
\<close>

record PendingRequest =
  request_id :: nat
  deadline :: nat

text \<open>
  Modelled from the spec: the two failures of the correlator's \<^verbatim>\<open>send\<close>, missing from the
  sources. \<^verbatim>\<open>failed with TimeoutError after timeoutMs elapses, or failed with
  ConnectionLostError if the Connection drops before resolution\<close>.
\<close>

datatype correlator_error = TimeoutError | ConnectionLostError

text \<open>
  Modelled from the spec: how the future returned by \<^verbatim>\<open>send\<close> ends, missing from the
  sources: resolved with the response payload, or failed.
\<close>

datatype outcome = Resolved string | Rejected correlator_error

text \<open>
  Modelled from the spec: the state of the bridge, missing from the sources: the one
  Connection's state, the pending-request table in the order of creation, and the counter
  the correlation identifiers are drawn from (\<^verbatim>\<open>generated monotonically\<close>).
\<close>

record bridge =
  state :: connection_state
  pending :: "PendingRequest list"
  next_id :: nat

text \<open>
  Modelled from the spec: the events the bridge handles, missing from the sources.
  \<open>Send now timeoutMs\<close> is a call of the correlator's \<^verbatim>\<open>send\<close> at time \<open>now\<close>;
  \<open>Response i payload\<close> is a response Message for identifier \<open>i\<close>; \<open>Tick now\<close> is
  the expiry of deadlines at time \<open>now\<close>; \<open>Connect\<close>, \<open>Established\<close> and \<open>Close\<close>
  move the Connection along its lifecycle; \<open>ChannelClosed\<close> is the loss or the end of the
  channel.
\<close>

datatype event =
    Send nat nat
  | Response nat string
  | Tick nat
  | Connect
  | Established
  | Close
  | ChannelClosed

text \<open>
  Modelled from the spec: what callers observe of a step, missing from the sources: a
  request was accepted under an identifier, a request was refused because the Connection
  is not connected, the caller of a request got its outcome, or a response with an
  unknown identifier was discarded.
\<close>

datatype notice =
    Accepted nat
  | Refused
  | Delivered nat outcome
  | Discarded nat

text \<open>
  Modelled from the spec: the handling of one event, missing from the sources.
  \<^item> \<^verbatim>\<open>send\<close>: a Session is only usable while the Connection is connected, and calls
    under any other state fail with a fixed error; otherwise a PendingRequest is created
    with the next identifier and the deadline \<open>now + timeoutMs\<close>.
  \<^item> A response: \<^verbatim>\<open>the identifier is looked up; unknown identifiers are logged and
    discarded\<close>; a known one resolves its entry, which is destroyed.
  \<^item> Expiry: the entries whose deadline has elapsed are failed with TimeoutError and
    destroyed; the Connection is not touched.
  \<^item> The lifecycle is \<^verbatim>\<open>disconnected -> connecting -> connected -> closing ->
    disconnected\<close>; \<^verbatim>\<open>connect()\<close> is a no-op while connecting or connected.
  \<^item> \<^verbatim>\<open>On Connection loss, every outstanding PendingRequest is rejected with
    ConnectionLostError in a single atomic sweep\<close>.
\<close>

fun step :: "event \<Rightarrow> bridge \<Rightarrow> bridge \<times> notice list" where
  "step (Send now timeoutMs) b =
     (if state b = connected
      then (b\<lparr>pending := pending b @ [\<lparr>request_id = next_id b, deadline = now + timeoutMs\<rparr>],
              next_id := Suc (next_id b)\<rparr>,
            [Accepted (next_id b)])
      else (b, [Refused]))"
| "step (Response i payload) b =
     (if i \<in> set (map request_id (pending b))
      then (b\<lparr>pending := filter (\<lambda>p. request_id p \<noteq> i) (pending b)\<rparr>,
            [Delivered i (Resolved payload)])
      else (b, [Discarded i]))"
| "step (Tick now) b =
     (b\<lparr>pending := filter (\<lambda>p. now < deadline p) (pending b)\<rparr>,
      map (\<lambda>p. Delivered (request_id p) (Rejected TimeoutError))
        (filter (\<lambda>p. deadline p \<le> now) (pending b)))"
| "step Connect b =
     (if state b = disconnected then b\<lparr>state := connecting\<rparr> else b, [])"
| "step Established b =
     (if state b = connecting then b\<lparr>state := connected\<rparr> else b, [])"
| "step Close b =
     (if state b = connected then b\<lparr>state := closing\<rparr> else b, [])"
| "step ChannelClosed b =
     (b\<lparr>state := disconnected, pending := []\<rparr>,
      map (\<lambda>p. Delivered (request_id p) (Rejected ConnectionLostError)) (pending b))"

text \<open>
  Modelled from the spec: a sequence of events handled one after the other, with all the
  notices in order; missing from the sources.
\<close>

fun run :: "event list \<Rightarrow> bridge \<Rightarrow> bridge \<times> notice list" where
  "run [] b = (b, [])"
| "run (e # es) b =
     (case step e b of
        (b', ns) \<Rightarrow> (case run es b' of (b'', ms) \<Rightarrow> (b'', ns @ ms)))"

text \<open>
  Modelled from the spec: the bridge at process start, missing from the sources: no
  Connection yet, nothing pending.
\<close>

definition initial_bridge :: bridge where
  "initial_bridge = \<lparr>state = disconnected, pending = [], next_id = 0\<rparr>"

text \<open>
  Modelled from the spec: the events under which request \<open>i\<close> with deadline \<open>d\<close> stays
  unanswered on a live Connection, missing from the sources: no response for \<open>i\<close>, no
  closing or loss of the channel, and no expiry at time \<open>d\<close> or later.
\<close>

fun unanswered :: "nat \<Rightarrow> nat \<Rightarrow> event \<Rightarrow> bool" where
  "unanswered i d (Send now timeoutMs) = True"
| "unanswered i d (Response j payload) = (j \<noteq> i)"
| "unanswered i d (Tick now) = (now < d)"
| "unanswered i d Connect = True"
| "unanswered i d Established = True"
| "unanswered i d Close = False"
| "unanswered i d ChannelClosed = False"

text \<open>
  Modelled from the spec: the outcomes of the Gateway's request handling that the status
  mapping of section 6 names, missing from the sources: \<^verbatim>\<open>200 success, 204 no-content
  (e.g., empty session deletion), 400 invalid/missing session, 500 internal or
  native-host-unavailable, 504 upstream (extension) timeout\<close>. A success carries the
  resolved payload.
\<close>

datatype gateway_outcome =
    Success string
  | No_content
  | Invalid_session
  | Internal_error
  | Native_host_unavailable
  | Upstream_timeout

text \<open>
  Modelled from the spec: the status each outcome is answered with, as a key of the
  \<^verbatim>\<open>HTTP_STATUS\<close> table of the constants file; the mapping of section 6, missing from
  the sources.
\<close>

fun outcome_status :: "gateway_outcome \<Rightarrow> HTTP_STATUS_key" where
  "outcome_status (Success payload) = OK"
| "outcome_status No_content = NO_CONTENT"
| "outcome_status Invalid_session = BAD_REQUEST"
| "outcome_status Internal_error = INTERNAL_SERVER_ERROR"
| "outcome_status Native_host_unavailable = INTERNAL_SERVER_ERROR"
| "outcome_status Upstream_timeout = GATEWAY_TIMEOUT"

text \<open>
  Modelled from the spec: the body each outcome is answered with, missing from the
  sources: the resolved payload unmodified, nothing on no-content, and for a failure the
  fixed message the catalogue has under that name (section 4.6: \<^verbatim>\<open>a fixed timeout
  message\<close>, \<^verbatim>\<open>a fixed "native host not available" message\<close>, \<^verbatim>\<open>a fixed invalid-session
  message\<close>).
\<close>

fun outcome_body :: "gateway_outcome \<Rightarrow> string" where
  "outcome_body (Success payload) = payload"
| "outcome_body No_content = []"
| "outcome_body Invalid_session = ERROR_MESSAGES INVALID_SESSION_ID"
| "outcome_body Internal_error = ERROR_MESSAGES MSG_INTERNAL_SERVER_ERROR"
| "outcome_body Native_host_unavailable = ERROR_MESSAGES NATIVE_HOST_NOT_AVAILABLE"
| "outcome_body Upstream_timeout = ERROR_MESSAGES REQUEST_TIMEOUT"

text \<open>
  Modelled from the spec: an HTTP response, and the response to an outcome, missing from
  the sources; the number of the status is the one of the constants file.
\<close>

record http_response =
  status :: nat
  body :: string

definition outcome_response :: "gateway_outcome \<Rightarrow> http_response" where
  "outcome_response out = \<lparr>status = HTTP_STATUS (outcome_status out), body = outcome_body out\<rparr>"

text \<open>
  Modelled from the spec: the outcome of the request handling for what the correlator
  tells a caller (section 4.6), missing from the sources: \<^verbatim>\<open>on success, write the
  resolved payload as the HTTP response body with status 200; on TimeoutError, respond
  504 with a fixed timeout message; on ConnectionLostError or when the Connection is not
  connected, respond 500 with a fixed "native host not available" message\<close>. An
  acceptance and a discarded response answer no call.
\<close>

fun notice_outcome :: "notice \<Rightarrow> gateway_outcome option" where
  "notice_outcome (Delivered i (Resolved payload)) = Some (Success payload)"
| "notice_outcome (Delivered i (Rejected TimeoutError)) = Some Upstream_timeout"
| "notice_outcome (Delivered i (Rejected ConnectionLostError)) = Some Native_host_unavailable"
| "notice_outcome Refused = Some Native_host_unavailable"
| "notice_outcome (Accepted i) = None"
| "notice_outcome (Discarded i) = None"

text \<open>
  Modelled from the spec: the Gateway's HTTP response to what a caller observes, missing
  from the sources.
\<close>

definition gateway_response :: "notice \<Rightarrow> http_response option" where
  "gateway_response n = map_option outcome_response (notice_outcome n)"

text \<open>
  Modelled from the spec: what the caller of request \<open>i\<close> receives among the notices of a
  step or a run, in order; missing from the sources. Demultiplexing is purely by
  correlation identifier.
\<close>

fun delivered_to :: "nat \<Rightarrow> notice \<Rightarrow> bool" where
  "delivered_to i (Delivered j out) = (j = i)"
| "delivered_to i (Accepted j) = False"
| "delivered_to i Refused = False"
| "delivered_to i (Discarded j) = False"

definition received_by :: "nat \<Rightarrow> notice list \<Rightarrow> notice list" where
  "received_by i ns = filter (delivered_to i) ns"

subsection \<open>Invariants of the bridge\<close>

text \<open>
  The identifiers of the pending requests are pairwise distinct and all below the counter:
  what monotonic generation maintains.
\<close>

definition ids_fresh :: "bridge \<Rightarrow> bool" where
  "ids_fresh b =
     (distinct (map request_id (pending b))
      \<and> (\<forall>p \<in> set (pending b). request_id p < next_id b))"

text \<open>
  Request \<open>i\<close> is pending with deadline \<open>d\<close>, and only with that deadline, on a
  connected Connection.
\<close>

definition awaiting :: "nat \<Rightarrow> nat \<Rightarrow> bridge \<Rightarrow> bool" where
  "awaiting i d b =
     (state b = connected
      \<and> i < next_id b
      \<and> (\<exists>p \<in> set (pending b). request_id p = i)
      \<and> (\<forall>p \<in> set (pending b). request_id p = i \<longrightarrow> deadline p = d))"

section \<open>The members of the closed tables\<close>

lemma NATIVE_MESSAGE_TYPE_UNIV:
  "(UNIV :: NATIVE_MESSAGE_TYPE set) = {START, STARTED, STOP, STOPPED, PING, PONG, ERROR}"
proof -
  have "x \<in> {START, STARTED, STOP, STOPPED, PING, PONG, ERROR}" for x
    by (cases x) simp_all
  then show ?thesis by blast
qed

lemma TIMEOUTS_key_UNIV:
  "(UNIV :: TIMEOUTS_key set) =
     {DEFAULT_REQUEST_TIMEOUT, EXTENSION_REQUEST_TIMEOUT, PROCESS_DATA_TIMEOUT}"
proof -
  have "x \<in> {DEFAULT_REQUEST_TIMEOUT, EXTENSION_REQUEST_TIMEOUT, PROCESS_DATA_TIMEOUT}" for x
    by (cases x) simp_all
  then show ?thesis by blast
qed

lemma HTTP_STATUS_key_UNIV:
  "(UNIV :: HTTP_STATUS_key set) =
     {OK, NO_CONTENT, BAD_REQUEST, INTERNAL_SERVER_ERROR, GATEWAY_TIMEOUT}"
proof -
  have "x \<in> {OK, NO_CONTENT, BAD_REQUEST, INTERNAL_SERVER_ERROR, GATEWAY_TIMEOUT}" for x
    by (cases x) simp_all
  then show ?thesis by blast
qed

lemma ERROR_MESSAGES_key_UNIV:
  "(UNIV :: ERROR_MESSAGES_key set) =
     {NATIVE_HOST_NOT_AVAILABLE, SERVER_NOT_RUNNING, REQUEST_TIMEOUT, INVALID_MCP_REQUEST,
      INVALID_SESSION_ID, MSG_INTERNAL_SERVER_ERROR, MCP_SESSION_DELETION_ERROR,
      MCP_REQUEST_PROCESSING_ERROR, INVALID_SSE_SESSION}"
proof -
  have "x \<in> {NATIVE_HOST_NOT_AVAILABLE, SERVER_NOT_RUNNING, REQUEST_TIMEOUT,
      INVALID_MCP_REQUEST, INVALID_SESSION_ID, MSG_INTERNAL_SERVER_ERROR,
      MCP_SESSION_DELETION_ERROR, MCP_REQUEST_PROCESSING_ERROR, INVALID_SSE_SESSION}" for x
    by (cases x) simp_all
  then show ?thesis by blast
qed

text \<open>
  C1. The message-type enumeration has exactly seven members and their strings are exactly
  start, started, stop, stopped, ping, pong and error: the set of all members' strings is
  that seven-element set, and no two members share a string.
\<close>

theorem NATIVE_MESSAGE_TYPE_exactly_seven:
  "range NATIVE_MESSAGE_TYPE_value =
     {''start'', ''started'', ''stop'', ''stopped'', ''ping'', ''pong'', ''error''}
   \<and> card (range NATIVE_MESSAGE_TYPE_value) = 7
   \<and> card (UNIV :: NATIVE_MESSAGE_TYPE set) = 7"
  by (simp add: NATIVE_MESSAGE_TYPE_UNIV)

lemma HTTP_STATUS_range: "range HTTP_STATUS = {200, 204, 400, 500, 504}"
  by (simp add: HTTP_STATUS_key_UNIV)

text \<open>
  C3. The Gateway answers a success with 200, a no-content outcome (such as an empty
  session deletion) with 204, an invalid or missing session with 400, an internal error
  and an unavailable native host with 500, and an upstream timeout with 504. These five
  are all the status codes its outcomes are answered with, and all the codes the status
  table defines.
\<close>

theorem gateway_status_mapping:
  "HTTP_STATUS (outcome_status (Success payload)) = 200
   \<and> HTTP_STATUS (outcome_status No_content) = 204
   \<and> HTTP_STATUS (outcome_status Invalid_session) = 400
   \<and> HTTP_STATUS (outcome_status Internal_error) = 500
   \<and> HTTP_STATUS (outcome_status Native_host_unavailable) = 500
   \<and> HTTP_STATUS (outcome_status Upstream_timeout) = 504
   \<and> status (outcome_response out) = HTTP_STATUS (outcome_status out)
   \<and> range (\<lambda>out. status (outcome_response out)) = {200, 204, 400, 500, 504}
   \<and> range HTTP_STATUS = {200, 204, 400, 500, 504}
   \<and> card (UNIV :: HTTP_STATUS_key set) = 5"
proof -
  let ?f = "\<lambda>out. status (outcome_response out)"
  have sub: "?f out \<in> {200, 204, 400, 500, 504}" for out
    by (cases out) (simp_all add: outcome_response_def)
  have "?f (Success []) = 200" "?f No_content = 204" "?f Invalid_session = 400"
    "?f Internal_error = 500" "?f Upstream_timeout = 504"
    by (simp_all add: outcome_response_def)
  then have "200 \<in> range ?f" "204 \<in> range ?f" "400 \<in> range ?f" "500 \<in> range ?f"
    "504 \<in> range ?f"
    by (metis rangeI)+
  with sub have r: "range ?f = {200, 204, 400, 500, 504}"
    by blast
  have c: "card (UNIV :: HTTP_STATUS_key set) = 5"
    by (simp add: HTTP_STATUS_key_UNIV)
  from r c HTTP_STATUS_range show ?thesis
    by (simp add: outcome_response_def)
qed

text \<open>
  C2. The timeout table gives 15000 ms for the default request timeout and 20000 ms for the
  extension-request and the data-processing timeouts. Its three entries take exactly two
  values, the default and a longer one, and each entry other than the default is strictly
  greater than the default.
\<close>

theorem TIMEOUTS_two_classes:
  "TIMEOUTS DEFAULT_REQUEST_TIMEOUT = 15000
   \<and> TIMEOUTS EXTENSION_REQUEST_TIMEOUT = 20000
   \<and> TIMEOUTS PROCESS_DATA_TIMEOUT = 20000
   \<and> range TIMEOUTS = {15000, 20000}
   \<and> card (range TIMEOUTS) = 2
   \<and> TIMEOUTS DEFAULT_REQUEST_TIMEOUT < TIMEOUTS EXTENSION_REQUEST_TIMEOUT
   \<and> TIMEOUTS DEFAULT_REQUEST_TIMEOUT < TIMEOUTS PROCESS_DATA_TIMEOUT"
  by (simp add: TIMEOUTS_key_UNIV)

lemma ERROR_MESSAGES_inj: "inj ERROR_MESSAGES"
proof (rule injI)
  fix x y
  assume "ERROR_MESSAGES x = ERROR_MESSAGES y"
  then show "x = y"
    by (cases x; cases y; simp)
qed

text \<open>
  The error catalogue has exactly nine entries, with exactly the nine fixed texts below,
  and no two of its keys share a text.
\<close>

theorem ERROR_MESSAGES_exactly_nine:
  "range ERROR_MESSAGES =
     {''Native host connection not established.'',
      ''Server is not actively running.'',
      ''Request to extension timed out.'',
      ''Invalid MCP request or session.'',
      ''Invalid or missing MCP session ID.'',
      ''Internal Server Error'',
      ''Internal server error during MCP session deletion.'',
      ''Internal server error during MCP request processing.'',
      ''Invalid or missing MCP session ID for SSE.''}
   \<and> card (UNIV :: ERROR_MESSAGES_key set) = 9
   \<and> card (range ERROR_MESSAGES) = 9
   \<and> bij_betw ERROR_MESSAGES UNIV (range ERROR_MESSAGES)"
proof (intro conjI)
  show "range ERROR_MESSAGES =
     {''Native host connection not established.'',
      ''Server is not actively running.'',
      ''Request to extension timed out.'',
      ''Invalid MCP request or session.'',
      ''Invalid or missing MCP session ID.'',
      ''Internal Server Error'',
      ''Internal server error during MCP session deletion.'',
      ''Internal server error during MCP request processing.'',
      ''Invalid or missing MCP session ID for SSE.''}"
    by (simp add: ERROR_MESSAGES_key_UNIV)
  show c: "card (UNIV :: ERROR_MESSAGES_key set) = 9"
    by (simp add: ERROR_MESSAGES_key_UNIV)
  show "card (range ERROR_MESSAGES) = 9"
    using card_image [OF ERROR_MESSAGES_inj] c by simp
  show "bij_betw ERROR_MESSAGES UNIV (range ERROR_MESSAGES)"
    using ERROR_MESSAGES_inj by (rule inj_on_imp_bij_betw)
qed

section \<open>Host and port of the endpoint\<close>

lemma decimal_12306: "decimal 12306 = ''12306''"
  by (simp add: decimal.simps)

lemma decimal_NATIVE_SERVER_PORT: "decimal NATIVE_SERVER_PORT = ''56889''"
  by (simp add: NATIVE_SERVER_PORT_def decimal.simps)

lemma connect_line_port:
  "connect_line host_ip =
     BLUE @ ''  Your MCP clients should connect to: '' @ mcp_url host_ip 12306 @ NC"
  by (simp add: connect_line_def mcp_url_def decimal_12306)

lemma configure_host_main_line:
  "configure_host_main m host_ip ok = Some w \<Longrightarrow>
   w = BLUE @ ''  Your MCP clients should connect to: '' @ mcp_url host_ip 12306 @ NC"
  by (cases m) (auto simp: connect_line_port split: if_splits)

lemma char_of_27: "char_of (27 :: nat) = CHR 0x1B"
  by code_simp

lemma emit_emit: "emit bs (emit cs r) = emit (bs @ cs) r"
  by (cases r) (auto simp: emit_def)

lemma emit_Some: "emit bs (Some (out, sawc)) = Some (bs @ out, sawc)"
  by (simp add: emit_def)

text \<open>Bytes other than the backslash are copied.\<close>

lemma echo_escapes_copy:
  "c \<noteq> CHR 0x5C \<Longrightarrow> echo_escapes (c # e # s) = emit [c] (echo_escapes (e # s))"
  by (simp add: echo_escapes.simps(3))

lemma echo_escapes_plain:
  "CHR 0x5C \<notin> set s \<Longrightarrow> r \<noteq> [] \<Longrightarrow> echo_escapes (s @ r) = emit s (echo_escapes r)"
proof (induction s)
  case Nil
  show ?case
    by (cases "echo_escapes r") (auto simp: emit_def)
next
  case (Cons c s)
  from Cons.prems obtain e t where et: "s @ r = e # t"
    by (cases "s @ r") auto
  from Cons.prems have c: "c \<noteq> CHR 0x5C"
    by auto
  have "echo_escapes ((c # s) @ r) = echo_escapes (c # e # t)"
    by (simp add: et)
  also have "\<dots> = emit [c] (echo_escapes (e # t))"
    using c by (rule echo_escapes_copy)
  also have "\<dots> = emit [c] (emit s (echo_escapes r))"
    using Cons by (simp add: et [symmetric])
  finally show ?case
    by (simp add: emit_emit)
qed

lemma echo_escapes_plain_end: "CHR 0x5C \<notin> set s \<Longrightarrow> echo_escapes s = Some (s, False)"
proof (induction s rule: echo_escapes.induct)
  case 1
  show ?case by simp
next
  case (2 c)
  show ?case by simp
next
  case (3 c e s)
  from "3.prems" have c: "c \<noteq> CHR 0x5C" and r: "CHR 0x5C \<notin> set (e # s)"
    by auto
  from "3.IH"(1) [OF c r] show ?case
    by (simp add: echo_escapes_copy [OF c] emit_Some)
qed

text \<open>The colour prefix \<^verbatim>\<open>\033[\<close> becomes the escape character and the bracket.\<close>

lemma echo_escapes_colour:
  "echo_escapes (CHR 0x5C # ''033['' @ t) = emit [CHR 0x1B] (echo_escapes (''['' @ t))"
  by (simp add: echo_escapes.simps(3) is_octal_def digits_value_def digit_value_def char_of_27)

lemma echo_e_connect_line:
  assumes "CHR 0x5C \<notin> set host_ip"
  shows "echo_e (connect_line host_ip) =
     Some (CHR 0x1B # ''[0;34m  Your MCP clients should connect to: http://'' @ host_ip
           @ '':12306/mcp'' @ CHR 0x1B # ''[0m'' @ [CHR 0x0A])"
proof -
  let ?s = "''[0;34m  Your MCP clients should connect to: http://'' @ host_ip @ '':12306/mcp''"
  have s: "CHR 0x5C \<notin> set ?s"
    using assms by simp
  have nc: "echo_escapes NC = Some (CHR 0x1B # ''[0m'', False)"
    using echo_escapes_colour [of "''0m''"] echo_escapes_plain_end [of "''[0m''"]
    by (simp add: NC_def emit_Some)
  have "connect_line host_ip = CHR 0x5C # ''033['' @ (''0;34m  Your MCP clients should connect to: http://''
      @ host_ip @ '':12306/mcp'' @ NC)"
    by (simp add: connect_line_def BLUE_def)
  then have "echo_escapes (connect_line host_ip) = emit [CHR 0x1B] (echo_escapes (?s @ NC))"
    by (simp only: echo_escapes_colour) simp
  also have "\<dots> = emit [CHR 0x1B] (emit ?s (echo_escapes NC))"
    using s by (subst echo_escapes_plain) (simp_all add: NC_def)
  finally show ?thesis
    by (simp add: echo_e_def nc emit_Some)
qed

text \<open>
  A backslash in the host is read by \<^verbatim>\<open>echo -e\<close>: after the host \<^verbatim>\<open>host\c\<close> the line
  ends before the port.
\<close>

lemma connect_line_cut_by_escape:
  "printed_connect_line MODE_set (''host'' @ [CHR 0x5C, CHR ''c'']) True =
     Some (CHR 0x1B # ''[0;34m  Your MCP clients should connect to: http://host'')"
  by (simp add: printed_connect_line_def connect_line_def BLUE_def NC_def echo_e_def emit_def
      echo_escapes.simps(3) is_octal_def digits_value_def digit_value_def char_of_27)

text \<open>
  C5, as stated, fails: the helper script prints the URL of the server with port 12306,
  and the server-port constant is 56889.
\<close>

theorem printed_port_is_not_NATIVE_SERVER_PORT:
  "printed_connect_line MODE_set ''127.0.0.1'' True =
     Some (CHR 0x1B # ''[0;34m  Your MCP clients should connect to: http://127.0.0.1:12306/mcp''
           @ CHR 0x1B # ''[0m'' @ [CHR 0x0A])
   \<and> mcp_url ''127.0.0.1'' NATIVE_SERVER_PORT = ''http://127.0.0.1:56889/mcp''
   \<and> printed_connect_line MODE_set ''127.0.0.1'' True \<noteq>
     Some (CHR 0x1B # ''[0;34m  Your MCP clients should connect to: ''
           @ mcp_url ''127.0.0.1'' NATIVE_SERVER_PORT @ CHR 0x1B # ''[0m'' @ [CHR 0x0A])"
proof -
  have "CHR 0x5C \<notin> set ''127.0.0.1''"
    by simp
  from echo_e_connect_line [OF this]
  have p: "printed_connect_line MODE_set ''127.0.0.1'' True =
     Some (CHR 0x1B # ''[0;34m  Your MCP clients should connect to: http://127.0.0.1:12306/mcp''
           @ CHR 0x1B # ''[0m'' @ [CHR 0x0A])"
    by (simp add: printed_connect_line_def)
  have u: "mcp_url ''127.0.0.1'' NATIVE_SERVER_PORT = ''http://127.0.0.1:56889/mcp''"
    by (simp add: mcp_url_def decimal_NATIVE_SERVER_PORT)
  show ?thesis
    unfolding p u by simp
qed

text \<open>
  C5, amended. The host of the endpoint is the value of \<^verbatim>\<open>MCP_CHROME_HOST\<close> when the
  variable is set to a non-empty string, and \<^verbatim>\<open>0.0.0.0\<close> when it is unset or empty. The
  server-port constant is the fixed value 56889. The connection line of the
  host-configuration script is always written with the fixed port 12306 after the host,
  and for every host without a backslash the line printed is the URL of that host on
  port 12306 between the colour codes; 12306 is not the server-port constant.
\<close>

theorem endpoint_host_and_ports:
  "HOST (SERVER_CONFIG None) = ''0.0.0.0''
   \<and> HOST (SERVER_CONFIG (Some [])) = ''0.0.0.0''
   \<and> (h \<noteq> [] \<longrightarrow> HOST (SERVER_CONFIG (Some h)) = h)
   \<and> NATIVE_SERVER_PORT = 56889
   \<and> (configure_host_main m host_ip ok = Some w \<longrightarrow>
        w = BLUE @ ''  Your MCP clients should connect to: '' @ mcp_url host_ip 12306 @ NC)
   \<and> (CHR 0x5C \<notin> set host_ip \<and> configure_host_main m host_ip ok = Some w \<longrightarrow>
        printed_connect_line m host_ip ok =
          Some (CHR 0x1B # ''[0;34m  Your MCP clients should connect to: ''
                @ mcp_url host_ip 12306 @ CHR 0x1B # ''[0m'' @ [CHR 0x0A]))
   \<and> NATIVE_SERVER_PORT \<noteq> 12306"
proof (intro conjI impI)
  show "NATIVE_SERVER_PORT = 56889"
    by (simp add: NATIVE_SERVER_PORT_def)
  show "NATIVE_SERVER_PORT \<noteq> 12306"
    by (simp add: NATIVE_SERVER_PORT_def)
  show "w = BLUE @ ''  Your MCP clients should connect to: '' @ mcp_url host_ip 12306 @ NC"
    if "configure_host_main m host_ip ok = Some w"
    using that by (rule configure_host_main_line)
  show "printed_connect_line m host_ip ok =
          Some (CHR 0x1B # ''[0;34m  Your MCP clients should connect to: ''
                @ mcp_url host_ip 12306 @ CHR 0x1B # ''[0m'' @ [CHR 0x0A])"
    if a: "CHR 0x5C \<notin> set host_ip \<and> configure_host_main m host_ip ok = Some w"
  proof -
    from a have w: "w = connect_line host_ip"
      by (cases m) (auto split: if_splits)
    from a have "echo_e (connect_line host_ip) =
       Some (CHR 0x1B # ''[0;34m  Your MCP clients should connect to: http://'' @ host_ip
           @ '':12306/mcp'' @ CHR 0x1B # ''[0m'' @ [CHR 0x0A])"
      by (simp add: echo_e_connect_line)
    with a w show ?thesis
      by (simp add: printed_connect_line_def mcp_url_def decimal_12306)
  qed
qed (simp_all add: SERVER_CONFIG_def)

theorem endpoint_host_and_ports_witness:
  "HOST (SERVER_CONFIG (Some ''100.64.0.1'')) = ''100.64.0.1''
   \<and> configure_host_main MODE_set ''100.64.0.1'' True =
       Some (BLUE @ ''  Your MCP clients should connect to: '' @ mcp_url ''100.64.0.1'' 12306 @ NC)
   \<and> printed_connect_line MODE_set ''100.64.0.1'' True =
       Some (CHR 0x1B # ''[0;34m  Your MCP clients should connect to: ''
             @ mcp_url ''100.64.0.1'' 12306 @ CHR 0x1B # ''[0m'' @ [CHR 0x0A])"
proof -
  have n: "CHR 0x5C \<notin> set ''100.64.0.1''" and e: "''100.64.0.1'' \<noteq> []"
    by simp_all
  have c: "configure_host_main MODE_set ''100.64.0.1'' True = Some (connect_line ''100.64.0.1'')"
    by simp
  from endpoint_host_and_ports [of "''100.64.0.1''" MODE_set "''100.64.0.1''" True
      "connect_line ''100.64.0.1''"] n e c
  show ?thesis
    by simp
qed

section \<open>Resolution of the host by the wrapper script\<close>

lemma command_substitution_no_LF:
  assumes "CHR 0x0A \<notin> set out"
  shows "command_substitution out = filter (\<lambda>c. c \<noteq> CHR 0x00) out"
proof -
  let ?s = "filter (\<lambda>c. c \<noteq> CHR 0x00) out"
  have "CHR 0x0A \<notin> set (rev ?s)"
    using assms by simp
  then have "dropWhile (\<lambda>c. c = CHR 0x0A) (rev ?s) = rev ?s"
    by (cases "rev ?s") auto
  then show ?thesis
    by (simp add: command_substitution_def)
qed

lemma load_host_eq:
  "load_host content =
     filter (\<lambda>c. c \<noteq> CHR 0x00)
       (take 50 (filter (\<lambda>c. c \<noteq> CHR 0x0A \<and> c \<noteq> CHR 0x0D \<and> c \<noteq> CHR '' '') content))"
proof -
  have "CHR 0x0A \<notin> set (head_c 50 (tr_d content))"
    by (auto simp: head_c_def tr_d_def dest: in_set_takeD)
  then show ?thesis
    by (simp add: load_host_def command_substitution_no_LF) (simp add: head_c_def tr_d_def)
qed

lemma length_load_host: "length (load_host content) \<le> 50"
proof -
  have "length (load_host content) \<le> length (take 50 (tr_d content))"
    unfolding load_host_eq tr_d_def by (rule length_filter_le)
  then show ?thesis by simp
qed

lemma load_host_no_NUL:
  assumes "CHR 0x00 \<notin> set content"
  shows "load_host content = take 50 (tr_d content)"
proof -
  have "\<forall>c \<in> set (take 50 (tr_d content)). c \<noteq> CHR 0x00"
    using assms by (auto simp: tr_d_def dest: in_set_takeD)
  then show ?thesis
    unfolding load_host_eq tr_d_def by (simp add: filter_id_conv)
qed

lemma run_host_env: "h \<noteq> [] \<Longrightarrow> run_host_MCP_CHROME_HOST (Some h) cf uf = h"
  by (simp add: run_host_MCP_CHROME_HOST_def)

lemma run_host_config_file:
  "env = None \<or> env = Some [] \<Longrightarrow>
   run_host_MCP_CHROME_HOST env (Some c) uf =
     (if load_host c = [] then ''0.0.0.0'' else load_host c)"
  by (auto simp: run_host_MCP_CHROME_HOST_def)

lemma run_host_user_config_file:
  "env = None \<or> env = Some [] \<Longrightarrow>
   run_host_MCP_CHROME_HOST env None (Some u) =
     (if load_host u = [] then ''0.0.0.0'' else load_host u)"
  by (auto simp: run_host_MCP_CHROME_HOST_def)

lemma run_host_default:
  "env = None \<or> env = Some [] \<Longrightarrow> run_host_MCP_CHROME_HOST env None None = ''0.0.0.0''"
  by (auto simp: run_host_MCP_CHROME_HOST_def)

lemma commented_priority_config_file:
  "commented_priority_MCP_CHROME_HOST env (Some c) uf = load_host c"
  by (simp add: commented_priority_MCP_CHROME_HOST_def)

text \<open>
  C9. A non-empty \<^verbatim>\<open>MCP_CHROME_HOST\<close> of the environment is exported unchanged, whatever
  the two configuration files hold: the variable is checked first. Only when it is unset
  or empty are the files consulted, the file in the script directory first, the file in
  the user's home only when the first does not exist, and \<^verbatim>\<open>0.0.0.0\<close> is the value
  when nothing else gives one. This is not the priority of the script's comment, which
  lists the environment variable third: where the script-directory file exists and holds
  another host than the environment, the script and the comment's order disagree.
\<close>

theorem env_MCP_CHROME_HOST_checked_first:
  "(h \<noteq> [] \<longrightarrow> run_host_MCP_CHROME_HOST (Some h) config_file user_config_file = h)
   \<and> (env = None \<or> env = Some [] \<longrightarrow>
        run_host_MCP_CHROME_HOST env (Some c) user_config_file =
          (if load_host c = [] then ''0.0.0.0'' else load_host c)
        \<and> run_host_MCP_CHROME_HOST env None (Some u) =
          (if load_host u = [] then ''0.0.0.0'' else load_host u)
        \<and> run_host_MCP_CHROME_HOST env None None = ''0.0.0.0'')
   \<and> (h \<noteq> [] \<and> load_host c \<noteq> h \<longrightarrow>
        run_host_MCP_CHROME_HOST (Some h) (Some c) user_config_file
          \<noteq> commented_priority_MCP_CHROME_HOST (Some h) (Some c) user_config_file)"
  by (auto simp: run_host_env run_host_config_file run_host_user_config_file run_host_default
      commented_priority_config_file)

theorem env_MCP_CHROME_HOST_checked_first_witness:
  "run_host_MCP_CHROME_HOST (Some ''127.0.0.1'') (Some ''10.0.0.1'') (Some ''10.0.0.2'') = ''127.0.0.1''
   \<and> run_host_MCP_CHROME_HOST None (Some ''10.0.0.1'') (Some ''10.0.0.2'') = ''10.0.0.1''
   \<and> run_host_MCP_CHROME_HOST None None (Some ''10.0.0.2'') = ''10.0.0.2''
   \<and> run_host_MCP_CHROME_HOST None None None = ''0.0.0.0''
   \<and> commented_priority_MCP_CHROME_HOST (Some ''127.0.0.1'') (Some ''10.0.0.1'') (Some ''10.0.0.2'')
        = ''10.0.0.1''
   \<and> run_host_MCP_CHROME_HOST (Some ''127.0.0.1'') (Some ''10.0.0.1'') (Some ''10.0.0.2'')
        \<noteq> commented_priority_MCP_CHROME_HOST (Some ''127.0.0.1'') (Some ''10.0.0.1'') (Some ''10.0.0.2'')"
proof -
  have l1: "load_host ''10.0.0.1'' = ''10.0.0.1''" and l2: "load_host ''10.0.0.2'' = ''10.0.0.2''"
    by (simp_all add: load_host_eq)
  have c: "commented_priority_MCP_CHROME_HOST (Some ''127.0.0.1'') (Some ''10.0.0.1'') (Some ''10.0.0.2'')
        = ''10.0.0.1''"
    by (simp add: commented_priority_config_file l1)
  show ?thesis
    using env_MCP_CHROME_HOST_checked_first
      [of "''127.0.0.1''" "Some ''10.0.0.1''" "Some ''10.0.0.2''" None "''10.0.0.1''" "''10.0.0.2''"]
    by (simp add: l1 l2 c)
qed

text \<open>
  C10, as stated, fails on a configuration file with nothing but white space: the exported
  value is \<^verbatim>\<open>0.0.0.0\<close>, not the (empty) sanitised content.
\<close>

theorem empty_config_file_exports_default:
  "run_host_MCP_CHROME_HOST None (Some [CHR 0x0A]) None = ''0.0.0.0''
   \<and> take 50 (filter (\<lambda>c. c \<noteq> CHR 0x0A \<and> c \<noteq> CHR 0x0D \<and> c \<noteq> CHR '' '') [CHR 0x0A]) = []
   \<and> run_host_MCP_CHROME_HOST None (Some [CHR 0x0A]) None
       \<noteq> take 50 (filter (\<lambda>c. c \<noteq> CHR 0x0A \<and> c \<noteq> CHR 0x0D \<and> c \<noteq> CHR '' '') [CHR 0x0A])"
  by (simp add: run_host_config_file load_host_eq)

text \<open>
  C10, amended. When a configuration file is read (the variable is unset or empty), the
  exported value is the file's content without its line feeds, carriage returns and
  spaces, cut to the first 50 bytes, less any NUL byte (the shell's command substitution
  drops them), and \<^verbatim>\<open>0.0.0.0\<close> when nothing is left. The value read from a file never
  exceeds 50 bytes; for a content without NUL bytes it is exactly the first 50 bytes of the
  content without line feeds, carriage returns and spaces, so a host of more than 50 such
  bytes is cut to 50.
\<close>

theorem config_file_host_sanitised_and_truncated:
  "(env = None \<or> env = Some [] \<longrightarrow>
      run_host_MCP_CHROME_HOST env (Some c) user_config_file =
        (if load_host c = [] then ''0.0.0.0'' else load_host c)
      \<and> run_host_MCP_CHROME_HOST env None (Some c) =
        (if load_host c = [] then ''0.0.0.0'' else load_host c))
   \<and> load_host c =
       filter (\<lambda>x. x \<noteq> CHR 0x00)
         (take 50 (filter (\<lambda>x. x \<noteq> CHR 0x0A \<and> x \<noteq> CHR 0x0D \<and> x \<noteq> CHR '' '') c))
   \<and> length (load_host c) \<le> 50
   \<and> (CHR 0x00 \<notin> set c \<longrightarrow>
        load_host c =
          take 50 (filter (\<lambda>x. x \<noteq> CHR 0x0A \<and> x \<noteq> CHR 0x0D \<and> x \<noteq> CHR '' '') c))
   \<and> (CHR 0x00 \<notin> set c \<and> 50 < length (tr_d c) \<longrightarrow>
        length (load_host c) = 50 \<and> load_host c \<noteq> tr_d c)"
proof (intro conjI impI)
  show "load_host c =
       filter (\<lambda>x. x \<noteq> CHR 0x00)
         (take 50 (filter (\<lambda>x. x \<noteq> CHR 0x0A \<and> x \<noteq> CHR 0x0D \<and> x \<noteq> CHR '' '') c))"
    by (rule load_host_eq)
  show "length (load_host c) \<le> 50"
    by (rule length_load_host)
next
  assume "CHR 0x00 \<notin> set c"
  then show "load_host c =
          take 50 (filter (\<lambda>x. x \<noteq> CHR 0x0A \<and> x \<noteq> CHR 0x0D \<and> x \<noteq> CHR '' '') c)"
    by (simp add: load_host_no_NUL tr_d_def)
next
  assume a: "CHR 0x00 \<notin> set c \<and> 50 < length (tr_d c)"
  then have e: "load_host c = take 50 (tr_d c)"
    by (simp add: load_host_no_NUL)
  show "length (load_host c) = 50"
    using a by (simp add: e)
  then show "load_host c \<noteq> tr_d c"
    using a by auto
qed (simp_all add: run_host_config_file run_host_user_config_file)

theorem config_file_host_sanitised_and_truncated_witness:
  "run_host_MCP_CHROME_HOST None
     (Some (''bridge-gateway-host-0001.internal.corp.example.organisation'' @ [CHR 0x0D, CHR 0x0A]))
     None
   = ''bridge-gateway-host-0001.internal.corp.example.org''
   \<and> length (load_host
        (''bridge-gateway-host-0001.internal.corp.example.organisation'' @ [CHR 0x0D, CHR 0x0A]))
       = 50"
proof -
  let ?c = "''bridge-gateway-host-0001.internal.corp.example.organisation'' @ [CHR 0x0D, CHR 0x0A]"
  have n: "CHR 0x00 \<notin> set ?c" by simp
  have l: "50 < length (tr_d ?c)" by (simp add: tr_d_def)
  have t: "take 50 (filter (\<lambda>x. x \<noteq> CHR 0x0A \<and> x \<noteq> CHR 0x0D \<and> x \<noteq> CHR '' '') ?c)
      = ''bridge-gateway-host-0001.internal.corp.example.org''"
    by simp
  from config_file_host_sanitised_and_truncated [of None ?c None] n l
  have r: "run_host_MCP_CHROME_HOST None (Some ?c) None =
        (if load_host ?c = [] then ''0.0.0.0'' else load_host ?c)"
    and e: "load_host ?c =
        take 50 (filter (\<lambda>x. x \<noteq> CHR 0x0A \<and> x \<noteq> CHR 0x0D \<and> x \<noteq> CHR '' '') ?c)"
    and k: "length (load_host ?c) = 50"
    by blast+
  show ?thesis
    using r k unfolding e t by simp
qed

section \<open>Properties of the Request Correlator\<close>

lemma ids_fresh_initial: "ids_fresh initial_bridge"
  by (simp add: ids_fresh_def initial_bridge_def)

lemma step_ids_fresh:
  assumes "ids_fresh b"
  shows "ids_fresh (fst (step e b))"
proof (cases e)
  case (Send now timeoutMs)
  with assms show ?thesis
    by (auto simp: ids_fresh_def less_Suc_eq)
next
  case (Response i payload)
  with assms show ?thesis
    by (auto simp: ids_fresh_def distinct_map_filter)
next
  case (Tick now)
  with assms show ?thesis
    by (auto simp: ids_fresh_def distinct_map_filter)
qed (use assms in \<open>auto simp: ids_fresh_def\<close>)

lemma fst_run_Cons: "fst (run (e # es) b) = fst (run es (fst (step e b)))"
  by (simp split: prod.splits)

lemma snd_run_Cons: "snd (run (e # es) b) = snd (step e b) @ snd (run es (fst (step e b)))"
  by (simp split: prod.splits)

lemma run_ids_fresh: "ids_fresh b \<Longrightarrow> ids_fresh (fst (run es b))"
proof (induction es arbitrary: b)
  case Nil
  then show ?case by simp
next
  case (Cons e es)
  from Cons.prems have "ids_fresh (fst (step e b))"
    by (rule step_ids_fresh)
  then have "ids_fresh (fst (run es (fst (step e b))))"
    by (rule Cons.IH)
  then show ?case
    by (simp only: fst_run_Cons)
qed

lemma distinct_map_filter_le_1:
  "distinct (map f xs) \<Longrightarrow> length (filter (\<lambda>p. f p = i) xs) \<le> 1"
proof (induction xs)
  case Nil
  then show ?case by simp
next
  case (Cons x xs)
  show ?case
  proof (cases "f x = i")
    case True
    from Cons.prems have "f x \<notin> f ` set xs"
      by simp
    with True have "\<forall>p \<in> set xs. f p \<noteq> i"
      by blast
    then have "filter (\<lambda>p. f p = i) xs = []"
      by (simp add: filter_empty_conv)
    with True show ?thesis by simp
  next
    case False
    with Cons show ?thesis by simp
  qed
qed

lemma send_accepted:
  assumes "step (Send now timeoutMs) b = (b', [Accepted j])"
  shows "state b = connected" and "j = next_id b"
    and "b' = b\<lparr>pending := pending b @ [\<lparr>request_id = j, deadline = now + timeoutMs\<rparr>],
                 next_id := Suc j\<rparr>"
  using assms by (auto split: if_splits)

text \<open>
  C7. In every state the bridge reaches from its start, under any sequence of events, the
  pending requests have pairwise distinct identifiers, so at most one PendingRequest with
  identifier \<open>i\<close> is outstanding, for every \<open>i\<close>. An identifier given to a newly
  accepted request is not the identifier of any request outstanding at that moment, and
  after the acceptance exactly one pending request bears it.
\<close>

theorem pending_ids_unique_and_not_reused:
  "distinct (map request_id (pending (fst (run es initial_bridge))))
   \<and> length (filter (\<lambda>p. request_id p = i) (pending (fst (run es initial_bridge)))) \<le> 1
   \<and> (step (Send now timeoutMs) (fst (run es initial_bridge)) = (b', [Accepted j]) \<longrightarrow>
        j \<notin> set (map request_id (pending (fst (run es initial_bridge))))
        \<and> length (filter (\<lambda>p. request_id p = j) (pending b')) = 1)"
proof -
  let ?b = "fst (run es initial_bridge)"
  have f: "ids_fresh ?b"
    using ids_fresh_initial by (rule run_ids_fresh)
  then have d: "distinct (map request_id (pending ?b))"
    by (simp add: ids_fresh_def)
  then have c: "length (filter (\<lambda>p. request_id p = i) (pending ?b)) \<le> 1"
    by (rule distinct_map_filter_le_1)
  have s: "j \<notin> set (map request_id (pending ?b))
        \<and> length (filter (\<lambda>p. request_id p = j) (pending b')) = 1"
    if a: "step (Send now timeoutMs) ?b = (b', [Accepted j])"
  proof -
    from send_accepted [OF a] have j: "j = next_id ?b"
      and b': "b' = ?b\<lparr>pending := pending ?b @ [\<lparr>request_id = j, deadline = now + timeoutMs\<rparr>],
                 next_id := Suc j\<rparr>"
      by simp_all
    from f j have n: "\<forall>p \<in> set (pending ?b). request_id p \<noteq> j"
      by (auto simp: ids_fresh_def)
    then have "filter (\<lambda>p. request_id p = j) (pending ?b) = []"
      by (simp add: filter_empty_conv)
    then have "length (filter (\<lambda>p. request_id p = j) (pending b')) = 1"
      by (subst b') simp
    with n show ?thesis by auto
  qed
  from d c s show ?thesis by blast
qed

theorem pending_ids_unique_and_not_reused_witness:
  "distinct (map request_id (pending (fst (run
      [Connect, Established, Send 0 15000, Send 5 20000] initial_bridge))))
   \<and> step (Send 10 15000) (fst (run [Connect, Established, Send 0 15000, Send 5 20000]
        initial_bridge))
     = (\<lparr>state = connected,
         pending = [\<lparr>request_id = 0, deadline = 15000\<rparr>, \<lparr>request_id = 1, deadline = 20005\<rparr>,
                    \<lparr>request_id = 2, deadline = 15010\<rparr>],
         next_id = 3\<rparr>, [Accepted 2])
   \<and> 2 \<notin> set (map request_id (pending (fst (run
      [Connect, Established, Send 0 15000, Send 5 20000] initial_bridge))))"
proof -
  let ?es = "[Connect, Established, Send 0 15000, Send 5 20000]"
  let ?b' = "\<lparr>state = connected,
         pending = [\<lparr>request_id = 0, deadline = 15000\<rparr>, \<lparr>request_id = 1, deadline = 20005\<rparr>,
                    \<lparr>request_id = 2, deadline = 15010\<rparr>],
         next_id = 3\<rparr>"
  have r: "step (Send 10 15000) (fst (run ?es initial_bridge)) = (?b', [Accepted 2])"
    by (simp add: initial_bridge_def)
  from pending_ids_unique_and_not_reused [of ?es 0 10 15000 ?b' 2] r
  show ?thesis by blast
qed

lemma step_awaiting:
  assumes "awaiting i d b" and "unanswered i d e"
  shows "awaiting i d (fst (step e b))"
    and "\<forall>out. Delivered i out \<notin> set (snd (step e b))"
proof -
  show "awaiting i d (fst (step e b))"
    using assms by (cases e) (auto simp: awaiting_def)
  show "\<forall>out. Delivered i out \<notin> set (snd (step e b))"
    using assms by (cases e) (auto simp: awaiting_def)
qed

lemma run_awaiting:
  "awaiting i d b \<Longrightarrow> list_all (unanswered i d) es \<Longrightarrow>
   awaiting i d (fst (run es b)) \<and> (\<forall>out. Delivered i out \<notin> set (snd (run es b)))"
proof (induction es arbitrary: b)
  case Nil
  then show ?case by simp
next
  case (Cons e es)
  from Cons.prems have u: "unanswered i d e" and us: "list_all (unanswered i d) es"
    by simp_all
  from step_awaiting [OF Cons.prems(1) u]
  have a: "awaiting i d (fst (step e b))"
    and n: "\<forall>out. Delivered i out \<notin> set (snd (step e b))"
    by simp_all
  from Cons.IH [OF a us] n show ?case
    by (simp only: fst_run_Cons snd_run_Cons) auto
qed

lemma send_awaiting:
  assumes "ids_fresh b" and "step (Send now timeoutMs) b = (b', [Accepted i])"
  shows "awaiting i (now + timeoutMs) b'"
proof -
  from send_accepted [OF assms(2)]
  have c: "state b = connected" and i: "i = next_id b"
    and b': "b' = b\<lparr>pending := pending b @ [\<lparr>request_id = i, deadline = now + timeoutMs\<rparr>],
                 next_id := Suc i\<rparr>"
    by simp_all
  from assms(1) i have "\<forall>p \<in> set (pending b). request_id p \<noteq> i"
    by (auto simp: ids_fresh_def)
  with c show ?thesis
    by (subst b') (auto simp: awaiting_def)
qed

lemma tick_awaiting:
  assumes "awaiting i d b"
  shows "state (fst (step (Tick d) b)) = connected"
    and "i \<notin> set (map request_id (pending (fst (step (Tick d) b))))"
  using assms by (auto simp: awaiting_def image_iff)

lemma received_by_empty:
  assumes "\<forall>out. Delivered i out \<notin> set ns"
  shows "received_by i ns = []"
proof -
  have "\<not> delivered_to i n" if "n \<in> set ns" for n
  proof (cases n)
    case (Delivered j out)
    with that assms show ?thesis
      by auto
  qed simp_all
  then show ?thesis
    by (simp add: received_by_def filter_empty_conv)
qed

lemma received_by_map:
  "received_by i (map (\<lambda>p. Delivered (request_id p) out) ps) =
     map (\<lambda>p. Delivered (request_id p) out) (filter (\<lambda>p. request_id p = i) ps)"
  by (induction ps) (simp_all add: received_by_def)

text \<open>A request that is awaited in a state with fresh identifiers has one entry.\<close>

lemma awaiting_single:
  assumes "ids_fresh b" and "awaiting i d b"
  obtains p where "filter (\<lambda>q. request_id q = i) (pending b) = [p]"
    and "request_id p = i" and "deadline p = d"
proof -
  let ?ps = "filter (\<lambda>q. request_id q = i) (pending b)"
  from assms(1) have "distinct (map request_id (pending b))"
    by (simp add: ids_fresh_def)
  then have le: "length ?ps \<le> 1"
    by (rule distinct_map_filter_le_1)
  from assms(2) obtain q where "q \<in> set (pending b)" "request_id q = i"
    by (auto simp: awaiting_def)
  then have "?ps \<noteq> []"
    by (auto simp: filter_empty_conv)
  with le obtain p where p: "?ps = [p]"
    by (cases ?ps) auto
  then have "p \<in> set ?ps"
    by simp
  then have m: "p \<in> set (pending b)" and r: "request_id p = i"
    by simp_all
  with assms(2) have "deadline p = d"
    by (simp add: awaiting_def)
  with p r show thesis
    by (rule that)
qed

lemma tick_received:
  assumes "ids_fresh b" and "awaiting i d b"
  shows "received_by i (snd (step (Tick d) b)) = [Delivered i (Rejected TimeoutError)]"
proof -
  from assms obtain p where p: "filter (\<lambda>q. request_id q = i) (pending b) = [p]"
    and r: "request_id p = i" and d: "deadline p = d"
    by (rule awaiting_single)
  have "filter (\<lambda>q. request_id q = i) (filter (\<lambda>q. deadline q \<le> d) (pending b)) =
      filter (\<lambda>q. deadline q \<le> d) (filter (\<lambda>q. request_id q = i) (pending b))"
    by (simp add: conj_commute)
  also have "\<dots> = [p]"
    by (simp add: p d)
  finally show ?thesis
    by (simp add: received_by_map r)
qed

lemma gateway_response_timeout:
  "gateway_response (Delivered i (Rejected TimeoutError)) =
     Some \<lparr>status = 504, body = ''Request to extension timed out.''\<rparr>"
  by (simp add: gateway_response_def outcome_response_def)

text \<open>
  C6. A request is accepted at time \<open>now\<close> with the default timeout of 15000 ms, in any
  state the bridge can reach. Whatever events follow, as long as the extension sends no
  response for it, the channel is neither closed nor lost, and the time stays below
  \<open>now + 15000\<close>: the caller has received nothing and the Connection is connected. At
  \<open>now + 15000\<close> the caller receives exactly one thing, the failure with TimeoutError,
  and the Gateway's answer to it is exactly status 504 with the text
  \<^verbatim>\<open>Request to extension timed out.\<close>; the request is pending no more and the Connection
  is still connected.
\<close>

theorem default_timeout_gives_504_on_live_connection:
  assumes "step (Send now (TIMEOUTS DEFAULT_REQUEST_TIMEOUT)) (fst (run es0 initial_bridge))
             = (b1, [Accepted i])"
    and "list_all (unanswered i (now + 15000)) es"
  shows "received_by i (snd (run es b1)) = []
    \<and> state (fst (run es b1)) = connected
    \<and> received_by i (snd (step (Tick (now + 15000)) (fst (run es b1))))
        = [Delivered i (Rejected TimeoutError)]
    \<and> map gateway_response
        (received_by i (snd (step (Tick (now + 15000)) (fst (run es b1)))))
        = [Some \<lparr>status = 504, body = ''Request to extension timed out.''\<rparr>]
    \<and> state (fst (step (Tick (now + 15000)) (fst (run es b1)))) = connected
    \<and> i \<notin> set (map request_id (pending (fst (step (Tick (now + 15000)) (fst (run es b1))))))"
proof -
  let ?b0 = "fst (run es0 initial_bridge)"
  let ?b2 = "fst (run es b1)"
  have f0: "ids_fresh ?b0"
    using ids_fresh_initial by (rule run_ids_fresh)
  have "ids_fresh (fst (step (Send now (TIMEOUTS DEFAULT_REQUEST_TIMEOUT)) ?b0))"
    using f0 by (rule step_ids_fresh)
  then have "ids_fresh b1"
    by (simp only: assms(1) fst_conv)
  then have f2: "ids_fresh ?b2"
    by (rule run_ids_fresh)
  have "awaiting i (now + TIMEOUTS DEFAULT_REQUEST_TIMEOUT) b1"
    using f0 assms(1) by (rule send_awaiting)
  then have a1: "awaiting i (now + 15000) b1"
    by simp
  from run_awaiting [OF a1 assms(2)]
  have a2: "awaiting i (now + 15000) ?b2"
    and q: "\<forall>out. Delivered i out \<notin> set (snd (run es b1))"
    by simp_all
  from q have e: "received_by i (snd (run es b1)) = []"
    by (rule received_by_empty)
  from a2 have c: "state ?b2 = connected"
    by (simp add: awaiting_def)
  have t: "received_by i (snd (step (Tick (now + 15000)) ?b2))
      = [Delivered i (Rejected TimeoutError)]"
    using f2 a2 by (rule tick_received)
  have g: "map gateway_response (received_by i (snd (step (Tick (now + 15000)) ?b2)))
      = [Some \<lparr>status = 504, body = ''Request to extension timed out.''\<rparr>]"
    by (simp only: t list.map gateway_response_timeout)
  from e c t g tick_awaiting [OF a2] show ?thesis
    by blast
qed

theorem default_timeout_gives_504_on_live_connection_witness:
  "step (Send 1000 (TIMEOUTS DEFAULT_REQUEST_TIMEOUT))
      (fst (run [Connect, Established] initial_bridge))
     = (\<lparr>state = connected, pending = [\<lparr>request_id = 0, deadline = 16000\<rparr>], next_id = 1\<rparr>,
        [Accepted 0])
   \<and> list_all (unanswered 0 16000) [Send 2000 20000, Response 1 ''done'', Tick 15999]
   \<and> received_by 0 (snd (run [Send 2000 20000, Response 1 ''done'', Tick 15999]
        \<lparr>state = connected, pending = [\<lparr>request_id = 0, deadline = 16000\<rparr>],
          next_id = 1\<rparr>)) = []
   \<and> map gateway_response
        (received_by 0 (snd (step (Tick 16000)
            (fst (run [Send 2000 20000, Response 1 ''done'', Tick 15999]
              \<lparr>state = connected, pending = [\<lparr>request_id = 0, deadline = 16000\<rparr>],
                next_id = 1\<rparr>)))))
        = [Some \<lparr>status = 504, body = ''Request to extension timed out.''\<rparr>]
   \<and> state (fst (step (Tick 16000)
            (fst (run [Send 2000 20000, Response 1 ''done'', Tick 15999]
              \<lparr>state = connected, pending = [\<lparr>request_id = 0, deadline = 16000\<rparr>],
                next_id = 1\<rparr>)))) = connected"
proof -
  let ?b1 = "\<lparr>state = connected, pending = [\<lparr>request_id = 0, deadline = 16000\<rparr>], next_id = 1\<rparr>"
  let ?es = "[Send 2000 20000, Response 1 ''done'', Tick 15999]"
  have s: "step (Send 1000 (TIMEOUTS DEFAULT_REQUEST_TIMEOUT))
      (fst (run [Connect, Established] initial_bridge)) = (?b1, [Accepted 0])"
    by (simp add: initial_bridge_def)
  have u: "list_all (unanswered 0 (1000 + 15000)) ?es"
    by simp
  have n: "(1000 :: nat) + 15000 = 16000"
    by simp
  from default_timeout_gives_504_on_live_connection [OF s u] s u show ?thesis
    unfolding n by blast
qed

text \<open>
  C8. Whenever an event takes the Connection from another state to disconnected, that one
  step rejects every pending request with ConnectionLostError, in the order of the table
  and with nothing in between: the notices of the step are exactly these N rejections,
  the table is empty afterwards, and a request submitted in the resulting state is
  refused, so none is accepted before the sweep is complete.
\<close>

theorem disconnection_rejects_all_pending_at_once:
  "step e b = (b', ns) \<and> state b \<noteq> disconnected \<and> state b' = disconnected \<longrightarrow>
     ns = map (\<lambda>p. Delivered (request_id p) (Rejected ConnectionLostError)) (pending b)
     \<and> length ns = length (pending b)
     \<and> pending b' = []
     \<and> step (Send now timeoutMs) b' = (b', [Refused])"
  by (cases e) (auto split: if_splits)

theorem disconnection_rejects_all_pending_at_once_witness:
  "step ChannelClosed
     \<lparr>state = connected,
      pending = [\<lparr>request_id = 0, deadline = 15000\<rparr>, \<lparr>request_id = 1, deadline = 20005\<rparr>],
      next_id = 2\<rparr>
   = (\<lparr>state = disconnected, pending = [], next_id = 2\<rparr>,
      [Delivered 0 (Rejected ConnectionLostError), Delivered 1 (Rejected ConnectionLostError)])
   \<and> step (Send 30 15000) \<lparr>state = disconnected, pending = [], next_id = 2\<rparr>
       = (\<lparr>state = disconnected, pending = [], next_id = 2\<rparr>, [Refused])"
proof -
  let ?b = "\<lparr>state = connected,
      pending = [\<lparr>request_id = 0, deadline = 15000\<rparr>, \<lparr>request_id = 1, deadline = 20005\<rparr>],
      next_id = 2\<rparr>"
  let ?b' = "\<lparr>state = disconnected, pending = [], next_id = 2\<rparr>"
  let ?ns = "[Delivered 0 (Rejected ConnectionLostError), Delivered 1 (Rejected ConnectionLostError)]"
  have s: "step ChannelClosed ?b = (?b', ?ns)"
    by simp
  from disconnection_rejects_all_pending_at_once [of ChannelClosed ?b ?b' ?ns 30 15000] s
  show ?thesis
    by simp
qed

end
